theory Spec2Isabelle
  imports Complex_Main "HOL-Library.Word"
begin

section \<open>The filter object of itkMultiLabelSTAPLE2ImageFilter.h\<close>

text \<open>
  The class \<^verbatim>\<open>MultiLabelSTAPLE2ImageFilter\<close> is a template over the input image, the
  output image and the weight type. Pixel values (\<^verbatim>\<open>InputPixelType\<close>,
  \<^verbatim>\<open>OutputPixelType\<close>) are labels and are modelled as naturals; an image is the list
  of its pixels in iteration order; a weight (\<^verbatim>\<open>TWeights\<close>, by default float) is a
  real number, so rounding is not part of the model. The two \<^verbatim>\<open>unsigned int\<close> members
  are 32-bit words. A smart pointer that may be null (the mask) is an option.
\<close>

type_synonym label = nat
type_synonym image = "label list"
type_synonym ConfusionMatrixType = "real list list"
type_synonym ProbabilityImageType = "real list"

text \<open>
  The members of the class, in the order of the header, followed by what the filter holds
  through its superclass \<^verbatim>\<open>ImageToImageFilter\<close>: the input images, the output image,
  the modification time that \<^verbatim>\<open>Modified()\<close> advances, and the abort flag
  (\<^verbatim>\<open>AbortGenerateData\<close>). The flag can be set by the caller or, while the filter runs,
  by an observer of the iteration event, so it is given as what the filter reads at the
  end of each iteration: \<open>AbortGenerateDataAfter f i\<close> is the flag at the end of the
  \<open>i\<close>-th iteration.
\<close>

record MultiLabelSTAPLE2ImageFilter =
  m_NumberOfClasses :: label
  m_HasPriorProbabilities :: bool
  m_HasObserverTrust :: bool
  m_HasMaximumNumberOfIterations :: bool
  m_HasPriorProbabilityImageArray :: bool
  m_HasNumberOfClasses :: bool
  m_HasPriorPreference :: bool
  m_PriorProbabilities :: "real list"
  m_PriorProbabilityImageArray :: "ProbabilityImageType list"
  m_ObserverTrust :: "real list"
  m_ConfusionMatrixArray :: "ConfusionMatrixType list"
  m_UpdatedConfusionMatrixArray :: "ConfusionMatrixType list"
  m_ProbabilisticSegmentationArray :: "ProbabilityImageType list"
  m_PriorPreference :: "label list"
  m_MaximumConfusionMatrixElementUpdate :: real
  m_ElapsedIterations :: "32 word"
  m_MaximumNumberOfIterations :: "32 word"
  m_GenerateProbabilisticSegmentations :: bool
  m_TerminationUpdateThreshold :: real
  m_MaskImage :: "image option"
  m_InitializeWithMajorityVoting :: bool
  Inputs :: "image list"
  Output :: image
  MTime :: nat
  AbortGenerateDataAfter :: "nat \<Rightarrow> bool"

text \<open>\<^verbatim>\<open>Modified()\<close> of the superclass gives the object a later modification time.\<close>

definition Modified :: "MultiLabelSTAPLE2ImageFilter \<Rightarrow> MultiLabelSTAPLE2ImageFilter" where
  "Modified f = f\<lparr>MTime := Suc (MTime f)\<rparr>"

subsection \<open>Set, get and unset of the optional parameters\<close>

definition SetMaximumNumberOfIterations ::
  "32 word \<Rightarrow> MultiLabelSTAPLE2ImageFilter \<Rightarrow> MultiLabelSTAPLE2ImageFilter" where
  "SetMaximumNumberOfIterations mit f =
     Modified (f\<lparr>m_MaximumNumberOfIterations := mit, m_HasMaximumNumberOfIterations := True\<rparr>)"

definition GetMaximumNumberOfIterations :: "MultiLabelSTAPLE2ImageFilter \<Rightarrow> 32 word" where
  "GetMaximumNumberOfIterations f = m_MaximumNumberOfIterations f"

definition UnsetMaximumNumberOfIterations ::
  "MultiLabelSTAPLE2ImageFilter \<Rightarrow> MultiLabelSTAPLE2ImageFilter" where
  "UnsetMaximumNumberOfIterations f =
     (if m_HasMaximumNumberOfIterations f
      then Modified (f\<lparr>m_HasMaximumNumberOfIterations := False\<rparr>)
      else f)"

definition SetPriorPreference ::
  "label list \<Rightarrow> MultiLabelSTAPLE2ImageFilter \<Rightarrow> MultiLabelSTAPLE2ImageFilter" where
  "SetPriorPreference ppa f =
     Modified (f\<lparr>m_PriorPreference := ppa, m_HasPriorPreference := True\<rparr>)"

definition GetPriorPreference :: "MultiLabelSTAPLE2ImageFilter \<Rightarrow> label list" where
  "GetPriorPreference f = m_PriorPreference f"

definition UnsetPriorPreference ::
  "MultiLabelSTAPLE2ImageFilter \<Rightarrow> MultiLabelSTAPLE2ImageFilter" where
  "UnsetPriorPreference f =
     (if m_HasPriorPreference f
      then Modified (f\<lparr>m_HasPriorPreference := False\<rparr>)
      else f)"

definition SetPriorProbabilityImageArray ::
  "ProbabilityImageType list \<Rightarrow> MultiLabelSTAPLE2ImageFilter \<Rightarrow> MultiLabelSTAPLE2ImageFilter" where
  "SetPriorProbabilityImageArray arg f =
     Modified (f\<lparr>m_PriorProbabilityImageArray := arg, m_HasPriorProbabilityImageArray := True\<rparr>)"

definition GetPriorProbabilityImageArray ::
  "MultiLabelSTAPLE2ImageFilter \<Rightarrow> ProbabilityImageType list" where
  "GetPriorProbabilityImageArray f = m_PriorProbabilityImageArray f"

definition UnsetPriorProbabilityImageArray ::
  "MultiLabelSTAPLE2ImageFilter \<Rightarrow> MultiLabelSTAPLE2ImageFilter" where
  "UnsetPriorProbabilityImageArray f =
     (if m_HasPriorProbabilityImageArray f
      then Modified (f\<lparr>m_HasPriorProbabilityImageArray := False\<rparr>)
      else f)"

definition SetPriorProbabilities ::
  "real list \<Rightarrow> MultiLabelSTAPLE2ImageFilter \<Rightarrow> MultiLabelSTAPLE2ImageFilter" where
  "SetPriorProbabilities ppa f =
     Modified (f\<lparr>m_PriorProbabilities := ppa, m_HasPriorProbabilities := True\<rparr>)"

definition GetPriorProbabilities :: "MultiLabelSTAPLE2ImageFilter \<Rightarrow> real list" where
  "GetPriorProbabilities f = m_PriorProbabilities f"

definition UnsetPriorProbabilities ::
  "MultiLabelSTAPLE2ImageFilter \<Rightarrow> MultiLabelSTAPLE2ImageFilter" where
  "UnsetPriorProbabilities f =
     (if m_HasPriorProbabilities f
      then Modified (f\<lparr>m_HasPriorProbabilities := False\<rparr>)
      else f)"

definition SetObserverTrust ::
  "real list \<Rightarrow> MultiLabelSTAPLE2ImageFilter \<Rightarrow> MultiLabelSTAPLE2ImageFilter" where
  "SetObserverTrust ot f =
     Modified (f\<lparr>m_ObserverTrust := ot, m_HasObserverTrust := True\<rparr>)"

definition GetObserverTrust :: "MultiLabelSTAPLE2ImageFilter \<Rightarrow> real list" where
  "GetObserverTrust f = m_ObserverTrust f"

definition UnsetObserverTrust ::
  "MultiLabelSTAPLE2ImageFilter \<Rightarrow> MultiLabelSTAPLE2ImageFilter" where
  "UnsetObserverTrust f =
     (if m_HasObserverTrust f
      then Modified (f\<lparr>m_HasObserverTrust := False\<rparr>)
      else f)"

definition SetNumberOfClasses ::
  "label \<Rightarrow> MultiLabelSTAPLE2ImageFilter \<Rightarrow> MultiLabelSTAPLE2ImageFilter" where
  "SetNumberOfClasses arg f =
     Modified (f\<lparr>m_NumberOfClasses := arg, m_HasNumberOfClasses := True\<rparr>)"

definition GetNumberOfClasses :: "MultiLabelSTAPLE2ImageFilter \<Rightarrow> label" where
  "GetNumberOfClasses f = m_NumberOfClasses f"

definition UnsetNumberOfClasses ::
  "MultiLabelSTAPLE2ImageFilter \<Rightarrow> MultiLabelSTAPLE2ImageFilter" where
  "UnsetNumberOfClasses f =
     (if m_HasNumberOfClasses f
      then Modified (f\<lparr>m_HasNumberOfClasses := False\<rparr>)
      else f)"

subsection \<open>Results of a run\<close>

definition GetProbabilisticSegmentationArray ::
  "MultiLabelSTAPLE2ImageFilter \<Rightarrow> ProbabilityImageType list" where
  "GetProbabilisticSegmentationArray f = m_ProbabilisticSegmentationArray f"

definition CleanProbabilisticSegmentations ::
  "MultiLabelSTAPLE2ImageFilter \<Rightarrow> MultiLabelSTAPLE2ImageFilter" where
  "CleanProbabilisticSegmentations f =
     (if length (m_ProbabilisticSegmentationArray f) > 0
      then Modified (f\<lparr>m_ProbabilisticSegmentationArray := []\<rparr>)
      else f)"


text \<open>
  \<^verbatim>\<open>GetConfusionMatrix(i)\<close> returns \<^verbatim>\<open>m_ConfusionMatrixArray[i]\<close>, an unchecked
  \<^verbatim>\<open>std::vector\<close> subscript: past the end of the vector the C++ has no defined result,
  which is the value \<open>None\<close> here.
\<close>

definition GetConfusionMatrix ::
  "MultiLabelSTAPLE2ImageFilter \<Rightarrow> 32 word \<Rightarrow> ConfusionMatrixType option" where
  "GetConfusionMatrix f i =
     (if unat i < length (m_ConfusionMatrixArray f)
      then Some (m_ConfusionMatrixArray f ! unat i)
      else None)"

definition GetElapsedIterations :: "MultiLabelSTAPLE2ImageFilter \<Rightarrow> 32 word" where
  "GetElapsedIterations f = m_ElapsedIterations f"

definition GetOutput :: "MultiLabelSTAPLE2ImageFilter \<Rightarrow> image" where
  "GetOutput f = Output f"

text \<open>
  A filter after a run on two sources of three pixels and two classes, with probabilistic
  segmentations kept; the theorems below are instantiated at it.
\<close>

definition filter_after_run :: MultiLabelSTAPLE2ImageFilter where
  "filter_after_run =
     \<lparr> m_NumberOfClasses = 2,
       m_HasPriorProbabilities = False,
       m_HasObserverTrust = False,
       m_HasMaximumNumberOfIterations = False,
       m_HasPriorProbabilityImageArray = False,
       m_HasNumberOfClasses = False,
       m_HasPriorPreference = False,
       m_PriorProbabilities = [1/2, 1/2],
       m_PriorProbabilityImageArray = [],
       m_ObserverTrust = [],
       m_ConfusionMatrixArray = [[[1, 0], [0, 1]], [[1, 0], [1/2, 1/2]]],
       m_UpdatedConfusionMatrixArray = [[[1, 0], [0, 1]], [[1, 0], [1/2, 1/2]]],
       m_ProbabilisticSegmentationArray = [[1, 0, 0], [0, 1, 1]],
       m_PriorPreference = [0, 1],
       m_MaximumConfusionMatrixElementUpdate = 0,
       m_ElapsedIterations = 3,
       m_MaximumNumberOfIterations = 7,
       m_GenerateProbabilisticSegmentations = True,
       m_TerminationUpdateThreshold = 1/100000,
       m_MaskImage = None,
       m_InitializeWithMajorityVoting = False,
       Inputs = [[0, 1, 1], [0, 1, 0]],
       Output = [0, 1, 1],
       MTime = 5,
       AbortGenerateDataAfter = (\<lambda>i. False) \<rparr>"

section \<open>The EM iteration and the decision stage\<close>

text \<open>
  \<^verbatim>\<open>GenerateData\<close> and the members it calls are declared in the header and defined in
  \<^verbatim>\<open>itkMultiLabelSTAPLE2ImageFilter.txx\<close>, which is not among the sources. The
  definitions of this section follow spec.md, sections 4.4 to 4.7, instead. They read the
  filter as the initialisation stages leave it: \<open>m_NumberOfClasses\<close> is the number of
  classes \<open>K\<close>, \<open>m_PriorProbabilities\<close> the prior vector and \<open>m_ConfusionMatrixArray\<close> the
  initial confusion matrices, one per input. Where the spec divides by a sum that may be
  zero it does not say what results; the theorems below do not depend on it.
\<close>

text \<open>Modelled from the spec: the region the pixel iterators of \<^verbatim>\<open>GenerateData\<close> walk
  (section 6: all inputs have the same size); the positions are \<open>0\<close> up to the size of the
  first input.\<close>

definition NumberOfPixels :: "MultiLabelSTAPLE2ImageFilter \<Rightarrow> nat" where
  "NumberOfPixels f = (case Inputs f of [] \<Rightarrow> 0 | img # _ \<Rightarrow> length img)"

text \<open>Modelled from the spec: the mask test of \<^verbatim>\<open>GenerateData\<close> (section 3, Mask: an
  optional boolean-valued image; header: only pixels within the mask are used). Without a
  mask every pixel is inside.\<close>

definition InsideMask :: "MultiLabelSTAPLE2ImageFilter \<Rightarrow> nat \<Rightarrow> bool" where
  "InsideMask f p = (case m_MaskImage f of None \<Rightarrow> True | Some m \<Rightarrow> m ! p \<noteq> 0)"

text \<open>Modelled from the spec: \<open>prior(k, p)\<close> of the E-step in \<^verbatim>\<open>GenerateData\<close>
  (section 4.2: per-pixel prior images override the global vector at that pixel).\<close>

definition PriorAt :: "MultiLabelSTAPLE2ImageFilter \<Rightarrow> label \<Rightarrow> nat \<Rightarrow> real" where
  "PriorAt f k p =
     (if m_HasPriorProbabilityImageArray f
      then m_PriorProbabilityImageArray f ! k ! p
      else m_PriorProbabilities f ! k)"

text \<open>Modelled from the spec: the factor \<open>ConfusionMatrix(s)[k][l]^trust(s)\<close> of the E-step
  in \<^verbatim>\<open>GenerateData\<close> (section 4.4); without observer trust the entry itself. A power
  with exponent \<open>0\<close> is \<open>1\<close>.\<close>

definition TrustPower :: "MultiLabelSTAPLE2ImageFilter \<Rightarrow> nat \<Rightarrow> real \<Rightarrow> real" where
  "TrustPower f s x =
     (if m_HasObserverTrust f
      then (if m_ObserverTrust f ! s = 0 then 1 else x powr (m_ObserverTrust f ! s))
      else x)"

text \<open>Modelled from the spec: the unnormalised posterior weight of the E-step in
  \<^verbatim>\<open>GenerateData\<close> (section 4.4):
  \<open>W_k(p) \<propto> prior(k, p) * \<Prod>_s ConfusionMatrix(s)[k][l_s(p)]^trust(s)\<close>.\<close>

definition UnnormalizedWeight ::
  "MultiLabelSTAPLE2ImageFilter \<Rightarrow> ConfusionMatrixType list \<Rightarrow> nat \<Rightarrow> label \<Rightarrow> real" where
  "UnnormalizedWeight f cms p k =
     PriorAt f k p *
     prod_list (map (\<lambda>s. TrustPower f s (cms ! s ! k ! (Inputs f ! s ! p)))
                    [0..<length (Inputs f)])"

text \<open>Modelled from the spec: dividing a vector by its sum, as the E-step (normalise
  \<open>W(p)\<close> to sum to 1 across \<open>k\<close>) and the M-step (divide row \<open>k\<close> by the sum of that row)
  of \<^verbatim>\<open>GenerateData\<close> do.\<close>

definition Normalize :: "real list \<Rightarrow> real list" where
  "Normalize ws = map (\<lambda>w. w / sum_list ws) ws"

text \<open>Modelled from the spec: the E-step of \<^verbatim>\<open>GenerateData\<close> at one pixel and over the
  image (section 4.4). A pixel outside the mask is skipped and receives no posterior: its
  entry is the empty vector.\<close>

definition PosteriorAt ::
  "MultiLabelSTAPLE2ImageFilter \<Rightarrow> ConfusionMatrixType list \<Rightarrow> nat \<Rightarrow> real list" where
  "PosteriorAt f cms p =
     Normalize (map (UnnormalizedWeight f cms p) [0..<m_NumberOfClasses f])"

definition EStep ::
  "MultiLabelSTAPLE2ImageFilter \<Rightarrow> ConfusionMatrixType list \<Rightarrow> real list list" where
  "EStep f cms =
     map (\<lambda>p. if InsideMask f p then PosteriorAt f cms p else [])
         [0..<NumberOfPixels f]"

text \<open>Modelled from the spec: the accumulation of the M-step in \<^verbatim>\<open>GenerateData\<close>
  (section 4.5): for source \<open>s\<close>, true label \<open>k\<close> and observed label \<open>j\<close> the sum of
  \<open>W_k(p) * [l_s(p) = j]\<close> over all non-masked pixels.\<close>

definition Accumulate ::
  "MultiLabelSTAPLE2ImageFilter \<Rightarrow> real list list \<Rightarrow> nat \<Rightarrow> label \<Rightarrow> label \<Rightarrow> real" where
  "Accumulate f W s k j =
     sum_list (map (\<lambda>p. W ! p ! k * (if Inputs f ! s ! p = j then 1 else 0))
                   (filter (InsideMask f) [0..<NumberOfPixels f]))"

text \<open>Modelled from the spec: the M-step of \<^verbatim>\<open>GenerateData\<close> (section 4.5): the
  accumulated matrix of every source, each row divided by its sum; the new matrices replace
  the old ones.\<close>

definition MStep ::
  "MultiLabelSTAPLE2ImageFilter \<Rightarrow> real list list \<Rightarrow> ConfusionMatrixType list" where
  "MStep f W =
     map (\<lambda>s. map (\<lambda>k. Normalize (map (Accumulate f W s k) [0..<m_NumberOfClasses f]))
                   [0..<m_NumberOfClasses f])
         [0..<length (Inputs f)]"

text \<open>Modelled from the spec: the convergence monitor of \<^verbatim>\<open>GenerateData\<close> (section
  4.6): the largest \<open>|new - old|\<close> over all sources and all matrix entries.\<close>

definition MaxUpdate ::
  "MultiLabelSTAPLE2ImageFilter \<Rightarrow> ConfusionMatrixType list \<Rightarrow> ConfusionMatrixType list \<Rightarrow> real" where
  "MaxUpdate f old new =
     fold max
       (concat (map (\<lambda>s. concat (map (\<lambda>k. map (\<lambda>j. \<bar>new ! s ! k ! j - old ! s ! k ! j\<bar>)
                                              [0..<m_NumberOfClasses f])
                                    [0..<m_NumberOfClasses f]))
                    [0..<length (Inputs f)]))
       0"

text \<open>Modelled from the spec: the EM loop of \<^verbatim>\<open>GenerateData\<close> (sections 2, 4.6 and
  5). One pass is an E-step, an M-step and the monitor; after each M-step the loop ends
  when the largest update is below \<open>m_TerminationUpdateThreshold\<close>, or the number of passes
  has reached the maximum number of iterations, if one is set, or the abort flag is set at
  this iteration boundary (section 5 and the class comment of the header: the algorithm
  halts after the current iteration and produces results as if it had converged). \<open>n\<close>
  counts the passes done before this one. The result is the number of passes, the last
  matrices, the posterior of the last E-step and the last largest update; a loop that
  never ends has no result (\<open>None\<close>).\<close>

partial_function (option) EMIterate ::
  "MultiLabelSTAPLE2ImageFilter \<Rightarrow> nat \<Rightarrow> ConfusionMatrixType list \<Rightarrow>
   (nat \<times> ConfusionMatrixType list \<times> real list list \<times> real) option" where
  "EMIterate f n cms =
     (let W = EStep f cms;
          new = MStep f W;
          mu = MaxUpdate f cms new
      in if mu < m_TerminationUpdateThreshold f \<or>
            (m_HasMaximumNumberOfIterations f \<and> unat (m_MaximumNumberOfIterations f) \<le> Suc n) \<or>
            AbortGenerateDataAfter f (Suc n)
         then Some (Suc n, new, W, mu)
         else EMIterate f (Suc n) new)"

declare EMIterate.simps [code]

text \<open>Modelled from the spec: the tie-break value of a class in the decision stage of
  \<^verbatim>\<open>GenerateData\<close> (section 3, PriorPreference: defaults to the label's own numeric
  value).\<close>

definition PreferenceOf :: "MultiLabelSTAPLE2ImageFilter \<Rightarrow> label \<Rightarrow> label" where
  "PreferenceOf f k = (if m_HasPriorPreference f then m_PriorPreference f ! k else k)"

text \<open>Modelled from the spec: the classes of maximal posterior weight at a pixel, the set
  \<open>C = {k : W_k(p) = maxW}\<close> of the decision stage of \<^verbatim>\<open>GenerateData\<close> (section 4.7),
  in increasing order.\<close>

definition MaximalClasses :: "MultiLabelSTAPLE2ImageFilter \<Rightarrow> real list \<Rightarrow> label list" where
  "MaximalClasses f w =
     filter (\<lambda>k. w ! k = Max (set (take (m_NumberOfClasses f) w))) [0..<m_NumberOfClasses f]"

text \<open>Modelled from the spec: the decision at a non-masked pixel in \<^verbatim>\<open>GenerateData\<close>
  (section 4.7): the only class of \<open>C\<close>, or with several the one of lowest preference
  value. With no class at all (\<open>K = 0\<close>), which the spec does not describe, the result is
  the first value past the class labels.\<close>

definition Decide :: "MultiLabelSTAPLE2ImageFilter \<Rightarrow> real list \<Rightarrow> label" where
  "Decide f w =
     (case MaximalClasses f w of
        [] \<Rightarrow> m_NumberOfClasses f
      | [k] \<Rightarrow> k
      | C \<Rightarrow> arg_min_list (PreferenceOf f) C)"

text \<open>Modelled from the spec: the decision stage of \<^verbatim>\<open>GenerateData\<close> over the image
  (section 4.7): a pixel outside the mask gets the label of source 0, every other pixel the
  decision on its posterior.\<close>

definition DecisionStage :: "MultiLabelSTAPLE2ImageFilter \<Rightarrow> real list list \<Rightarrow> image" where
  "DecisionStage f W =
     map (\<lambda>p. if InsideMask f p then Decide f (W ! p) else Inputs f ! 0 ! p)
         [0..<NumberOfPixels f]"

text \<open>Modelled from the spec: \<^verbatim>\<open>GenerateData\<close> from the EM loop on (section 2, control
  flow): the loop starts from the initial matrices, then the decision stage runs once on
  the posterior of the last E-step (section 5), and the matrices, the number of elapsed
  iterations and the last largest update are stored for the getters. The optional
  per-class posterior images are not part of this model.\<close>

definition GenerateData ::
  "MultiLabelSTAPLE2ImageFilter \<Rightarrow> MultiLabelSTAPLE2ImageFilter option" where
  "GenerateData f =
     (case EMIterate f 0 (m_ConfusionMatrixArray f) of
        None \<Rightarrow> None
      | Some (n, cms, W, mu) \<Rightarrow>
          Some (f\<lparr>m_ConfusionMatrixArray := cms,
                  m_UpdatedConfusionMatrixArray := cms,
                  m_MaximumConfusionMatrixElementUpdate := mu,
                  m_ElapsedIterations := of_nat n,
                  Output := DecisionStage f W\<rparr>))"

text \<open>
  For stating what the loop does: one pass on given matrices, the matrices after \<open>i\<close>
  passes, and the largest update that the \<open>i\<close>-th pass (\<open>i \<ge> 1\<close>) reports.
\<close>

definition EMPass ::
  "MultiLabelSTAPLE2ImageFilter \<Rightarrow> ConfusionMatrixType list \<Rightarrow> ConfusionMatrixType list" where
  "EMPass f cms = MStep f (EStep f cms)"

definition MatricesAfter ::
  "MultiLabelSTAPLE2ImageFilter \<Rightarrow> nat \<Rightarrow> ConfusionMatrixType list" where
  "MatricesAfter f i = (EMPass f ^^ i) (m_ConfusionMatrixArray f)"

definition UpdateOfPass :: "MultiLabelSTAPLE2ImageFilter \<Rightarrow> nat \<Rightarrow> real" where
  "UpdateOfPass f i = MaxUpdate f (MatricesAfter f (i - 1)) (MatricesAfter f i)"

text \<open>
  The exit test of the loop after the \<open>i\<close>-th pass: the largest update of that pass is
  below the threshold, or a maximum number of iterations is set and \<open>i\<close> has reached it,
  or the abort flag is set at the end of that pass.
\<close>

definition StopsAfterPass :: "MultiLabelSTAPLE2ImageFilter \<Rightarrow> nat \<Rightarrow> bool" where
  "StopsAfterPass f i \<longleftrightarrow>
     UpdateOfPass f i < m_TerminationUpdateThreshold f \<or>
     (m_HasMaximumNumberOfIterations f \<and> unat (m_MaximumNumberOfIterations f) \<le> i) \<or>
     AbortGenerateDataAfter f i"


text \<open>
  For stating that the sources' values at a pixel do not matter: the filter with the
  label \<open>ls ! s\<close> written at pixel \<open>p\<close> of every source \<open>s\<close>.
\<close>

definition RelabelPixel ::
  "MultiLabelSTAPLE2ImageFilter \<Rightarrow> nat \<Rightarrow> label list \<Rightarrow> MultiLabelSTAPLE2ImageFilter" where
  "RelabelPixel f p ls =
     f\<lparr>Inputs := map (\<lambda>s. (Inputs f ! s)[p := ls ! s]) [0..<length (Inputs f)]\<rparr>"

text \<open>
  A filter ready for the EM loop: two sources of three pixels, two classes, a mask that
  excludes the middle pixel, at most one iteration.
\<close>

definition filter_masked :: MultiLabelSTAPLE2ImageFilter where
  "filter_masked =
     \<lparr> m_NumberOfClasses = 2,
       m_HasPriorProbabilities = False,
       m_HasObserverTrust = False,
       m_HasMaximumNumberOfIterations = True,
       m_HasPriorProbabilityImageArray = False,
       m_HasNumberOfClasses = False,
       m_HasPriorPreference = False,
       m_PriorProbabilities = [1/2, 1/2],
       m_PriorProbabilityImageArray = [],
       m_ObserverTrust = [],
       m_ConfusionMatrixArray = [[[3/4, 1/4], [1/4, 3/4]], [[3/4, 1/4], [1/4, 3/4]]],
       m_UpdatedConfusionMatrixArray = [],
       m_ProbabilisticSegmentationArray = [],
       m_PriorPreference = [],
       m_MaximumConfusionMatrixElementUpdate = 0,
       m_ElapsedIterations = 0,
       m_MaximumNumberOfIterations = 1,
       m_GenerateProbabilisticSegmentations = False,
       m_TerminationUpdateThreshold = 1/100000,
       m_MaskImage = Some [1, 0, 1],
       m_InitializeWithMajorityVoting = False,
       Inputs = [[0, 1, 1], [0, 0, 1]],
       Output = [],
       MTime = 0,
       AbortGenerateDataAfter = (\<lambda>i. False) \<rparr>"





section \<open>Releasing the probabilistic segmentations\<close>

text \<open>
  C8. \<^verbatim>\<open>CleanProbabilisticSegmentations\<close> empties the array of probabilistic
  segmentations and touches nothing else but the modification time: the output label
  image, every confusion matrix (also as \<^verbatim>\<open>GetConfusionMatrix\<close> returns it) and the
  elapsed iteration count are the same after the call as before.
\<close>

theorem CleanProbabilisticSegmentations_frame:
  "GetProbabilisticSegmentationArray (CleanProbabilisticSegmentations f) = []
   \<and> GetOutput (CleanProbabilisticSegmentations f) = GetOutput f
   \<and> m_ConfusionMatrixArray (CleanProbabilisticSegmentations f) = m_ConfusionMatrixArray f
   \<and> (\<forall>i. GetConfusionMatrix (CleanProbabilisticSegmentations f) i = GetConfusionMatrix f i)
   \<and> GetElapsedIterations (CleanProbabilisticSegmentations f) = GetElapsedIterations f
   \<and> CleanProbabilisticSegmentations f =
       f\<lparr>m_ProbabilisticSegmentationArray := [],
         MTime := MTime (CleanProbabilisticSegmentations f)\<rparr>"
  by (simp add: CleanProbabilisticSegmentations_def GetProbabilisticSegmentationArray_def
      GetOutput_def GetConfusionMatrix_def GetElapsedIterations_def Modified_def)

section \<open>Unsetting an optional parameter\<close>

text \<open>
  Each of the six \<^verbatim>\<open>Unset\<close> members has the same shape: when the presence flag is
  set it clears the flag and calls \<^verbatim>\<open>Modified()\<close>, otherwise it does nothing. One lemma
  per member states what follows: unsetting twice is unsetting once, the stored value is
  still what the getter returns, the flag is clear afterwards, a call on a clear flag
  returns the very same object, and no member but the flag (and the modification time)
  differs.
\<close>

lemma UnsetMaximumNumberOfIterations_props:
  "UnsetMaximumNumberOfIterations (UnsetMaximumNumberOfIterations f) = UnsetMaximumNumberOfIterations f"
  "GetMaximumNumberOfIterations (UnsetMaximumNumberOfIterations f) = GetMaximumNumberOfIterations f"
  "\<not> m_HasMaximumNumberOfIterations (UnsetMaximumNumberOfIterations f)"
  "\<not> m_HasMaximumNumberOfIterations f \<Longrightarrow> UnsetMaximumNumberOfIterations f = f"
  "UnsetMaximumNumberOfIterations f = f\<lparr>m_HasMaximumNumberOfIterations := False, MTime := MTime (UnsetMaximumNumberOfIterations f)\<rparr>"
  by (simp_all add: UnsetMaximumNumberOfIterations_def GetMaximumNumberOfIterations_def Modified_def)

lemma GetMaximumNumberOfIterations_Unset_Set:
  "GetMaximumNumberOfIterations (UnsetMaximumNumberOfIterations (SetMaximumNumberOfIterations v f)) = v"
  by (simp add: UnsetMaximumNumberOfIterations_def GetMaximumNumberOfIterations_def SetMaximumNumberOfIterations_def Modified_def)

lemma UnsetPriorPreference_props:
  "UnsetPriorPreference (UnsetPriorPreference f) = UnsetPriorPreference f"
  "GetPriorPreference (UnsetPriorPreference f) = GetPriorPreference f"
  "\<not> m_HasPriorPreference (UnsetPriorPreference f)"
  "\<not> m_HasPriorPreference f \<Longrightarrow> UnsetPriorPreference f = f"
  "UnsetPriorPreference f = f\<lparr>m_HasPriorPreference := False, MTime := MTime (UnsetPriorPreference f)\<rparr>"
  by (simp_all add: UnsetPriorPreference_def GetPriorPreference_def Modified_def)

lemma GetPriorPreference_Unset_Set:
  "GetPriorPreference (UnsetPriorPreference (SetPriorPreference v f)) = v"
  by (simp add: UnsetPriorPreference_def GetPriorPreference_def SetPriorPreference_def Modified_def)

lemma UnsetPriorProbabilityImageArray_props:
  "UnsetPriorProbabilityImageArray (UnsetPriorProbabilityImageArray f) = UnsetPriorProbabilityImageArray f"
  "GetPriorProbabilityImageArray (UnsetPriorProbabilityImageArray f) = GetPriorProbabilityImageArray f"
  "\<not> m_HasPriorProbabilityImageArray (UnsetPriorProbabilityImageArray f)"
  "\<not> m_HasPriorProbabilityImageArray f \<Longrightarrow> UnsetPriorProbabilityImageArray f = f"
  "UnsetPriorProbabilityImageArray f = f\<lparr>m_HasPriorProbabilityImageArray := False, MTime := MTime (UnsetPriorProbabilityImageArray f)\<rparr>"
  by (simp_all add: UnsetPriorProbabilityImageArray_def GetPriorProbabilityImageArray_def Modified_def)

lemma GetPriorProbabilityImageArray_Unset_Set:
  "GetPriorProbabilityImageArray (UnsetPriorProbabilityImageArray (SetPriorProbabilityImageArray v f)) = v"
  by (simp add: UnsetPriorProbabilityImageArray_def GetPriorProbabilityImageArray_def SetPriorProbabilityImageArray_def Modified_def)

lemma UnsetPriorProbabilities_props:
  "UnsetPriorProbabilities (UnsetPriorProbabilities f) = UnsetPriorProbabilities f"
  "GetPriorProbabilities (UnsetPriorProbabilities f) = GetPriorProbabilities f"
  "\<not> m_HasPriorProbabilities (UnsetPriorProbabilities f)"
  "\<not> m_HasPriorProbabilities f \<Longrightarrow> UnsetPriorProbabilities f = f"
  "UnsetPriorProbabilities f = f\<lparr>m_HasPriorProbabilities := False, MTime := MTime (UnsetPriorProbabilities f)\<rparr>"
  by (simp_all add: UnsetPriorProbabilities_def GetPriorProbabilities_def Modified_def)

lemma GetPriorProbabilities_Unset_Set:
  "GetPriorProbabilities (UnsetPriorProbabilities (SetPriorProbabilities v f)) = v"
  by (simp add: UnsetPriorProbabilities_def GetPriorProbabilities_def SetPriorProbabilities_def Modified_def)

lemma UnsetObserverTrust_props:
  "UnsetObserverTrust (UnsetObserverTrust f) = UnsetObserverTrust f"
  "GetObserverTrust (UnsetObserverTrust f) = GetObserverTrust f"
  "\<not> m_HasObserverTrust (UnsetObserverTrust f)"
  "\<not> m_HasObserverTrust f \<Longrightarrow> UnsetObserverTrust f = f"
  "UnsetObserverTrust f = f\<lparr>m_HasObserverTrust := False, MTime := MTime (UnsetObserverTrust f)\<rparr>"
  by (simp_all add: UnsetObserverTrust_def GetObserverTrust_def Modified_def)

lemma GetObserverTrust_Unset_Set:
  "GetObserverTrust (UnsetObserverTrust (SetObserverTrust v f)) = v"
  by (simp add: UnsetObserverTrust_def GetObserverTrust_def SetObserverTrust_def Modified_def)

lemma UnsetNumberOfClasses_props:
  "UnsetNumberOfClasses (UnsetNumberOfClasses f) = UnsetNumberOfClasses f"
  "GetNumberOfClasses (UnsetNumberOfClasses f) = GetNumberOfClasses f"
  "\<not> m_HasNumberOfClasses (UnsetNumberOfClasses f)"
  "\<not> m_HasNumberOfClasses f \<Longrightarrow> UnsetNumberOfClasses f = f"
  "UnsetNumberOfClasses f = f\<lparr>m_HasNumberOfClasses := False, MTime := MTime (UnsetNumberOfClasses f)\<rparr>"
  by (simp_all add: UnsetNumberOfClasses_def GetNumberOfClasses_def Modified_def)

lemma GetNumberOfClasses_Unset_Set:
  "GetNumberOfClasses (UnsetNumberOfClasses (SetNumberOfClasses v f)) = v"
  by (simp add: UnsetNumberOfClasses_def GetNumberOfClasses_def SetNumberOfClasses_def Modified_def)

text \<open>
  C9. Every \<^verbatim>\<open>Unset\<close> operation (of the maximum number of iterations, the prior
  preference, the prior probability images, the prior probabilities, the observer trust and
  the number of classes) is idempotent, leaves the stored value as the matching getter
  returns it (also a value stored by the setter just before), clears its presence flag,
  changes no other member except the modification time, and on a filter whose flag is
  already clear returns the filter unchanged, modification time included.
\<close>

theorem Unset_operations_idempotent_flag_only:
  "(UnsetMaximumNumberOfIterations (UnsetMaximumNumberOfIterations f) = UnsetMaximumNumberOfIterations f
    \<and> GetMaximumNumberOfIterations (UnsetMaximumNumberOfIterations f) = GetMaximumNumberOfIterations f
    \<and> \<not> m_HasMaximumNumberOfIterations (UnsetMaximumNumberOfIterations f)
    \<and> (\<not> m_HasMaximumNumberOfIterations f \<longrightarrow> UnsetMaximumNumberOfIterations f = f)
    \<and> UnsetMaximumNumberOfIterations f = f\<lparr>m_HasMaximumNumberOfIterations := False, MTime := MTime (UnsetMaximumNumberOfIterations f)\<rparr>
    \<and> (\<forall>v. GetMaximumNumberOfIterations (UnsetMaximumNumberOfIterations (SetMaximumNumberOfIterations v f)) = v))
   \<and> (UnsetPriorPreference (UnsetPriorPreference f) = UnsetPriorPreference f
    \<and> GetPriorPreference (UnsetPriorPreference f) = GetPriorPreference f
    \<and> \<not> m_HasPriorPreference (UnsetPriorPreference f)
    \<and> (\<not> m_HasPriorPreference f \<longrightarrow> UnsetPriorPreference f = f)
    \<and> UnsetPriorPreference f = f\<lparr>m_HasPriorPreference := False, MTime := MTime (UnsetPriorPreference f)\<rparr>
    \<and> (\<forall>v. GetPriorPreference (UnsetPriorPreference (SetPriorPreference v f)) = v))
   \<and> (UnsetPriorProbabilityImageArray (UnsetPriorProbabilityImageArray f) = UnsetPriorProbabilityImageArray f
    \<and> GetPriorProbabilityImageArray (UnsetPriorProbabilityImageArray f) = GetPriorProbabilityImageArray f
    \<and> \<not> m_HasPriorProbabilityImageArray (UnsetPriorProbabilityImageArray f)
    \<and> (\<not> m_HasPriorProbabilityImageArray f \<longrightarrow> UnsetPriorProbabilityImageArray f = f)
    \<and> UnsetPriorProbabilityImageArray f = f\<lparr>m_HasPriorProbabilityImageArray := False, MTime := MTime (UnsetPriorProbabilityImageArray f)\<rparr>
    \<and> (\<forall>v. GetPriorProbabilityImageArray (UnsetPriorProbabilityImageArray (SetPriorProbabilityImageArray v f)) = v))
   \<and> (UnsetPriorProbabilities (UnsetPriorProbabilities f) = UnsetPriorProbabilities f
    \<and> GetPriorProbabilities (UnsetPriorProbabilities f) = GetPriorProbabilities f
    \<and> \<not> m_HasPriorProbabilities (UnsetPriorProbabilities f)
    \<and> (\<not> m_HasPriorProbabilities f \<longrightarrow> UnsetPriorProbabilities f = f)
    \<and> UnsetPriorProbabilities f = f\<lparr>m_HasPriorProbabilities := False, MTime := MTime (UnsetPriorProbabilities f)\<rparr>
    \<and> (\<forall>v. GetPriorProbabilities (UnsetPriorProbabilities (SetPriorProbabilities v f)) = v))
   \<and> (UnsetObserverTrust (UnsetObserverTrust f) = UnsetObserverTrust f
    \<and> GetObserverTrust (UnsetObserverTrust f) = GetObserverTrust f
    \<and> \<not> m_HasObserverTrust (UnsetObserverTrust f)
    \<and> (\<not> m_HasObserverTrust f \<longrightarrow> UnsetObserverTrust f = f)
    \<and> UnsetObserverTrust f = f\<lparr>m_HasObserverTrust := False, MTime := MTime (UnsetObserverTrust f)\<rparr>
    \<and> (\<forall>v. GetObserverTrust (UnsetObserverTrust (SetObserverTrust v f)) = v))
   \<and> (UnsetNumberOfClasses (UnsetNumberOfClasses f) = UnsetNumberOfClasses f
    \<and> GetNumberOfClasses (UnsetNumberOfClasses f) = GetNumberOfClasses f
    \<and> \<not> m_HasNumberOfClasses (UnsetNumberOfClasses f)
    \<and> (\<not> m_HasNumberOfClasses f \<longrightarrow> UnsetNumberOfClasses f = f)
    \<and> UnsetNumberOfClasses f = f\<lparr>m_HasNumberOfClasses := False, MTime := MTime (UnsetNumberOfClasses f)\<rparr>
    \<and> (\<forall>v. GetNumberOfClasses (UnsetNumberOfClasses (SetNumberOfClasses v f)) = v))"
  using UnsetMaximumNumberOfIterations_props [of f] GetMaximumNumberOfIterations_Unset_Set [of _ f]
    UnsetPriorPreference_props [of f] GetPriorPreference_Unset_Set [of _ f]
    UnsetPriorProbabilityImageArray_props [of f] GetPriorProbabilityImageArray_Unset_Set [of _ f]
    UnsetPriorProbabilities_props [of f] GetPriorProbabilities_Unset_Set [of _ f]
    UnsetObserverTrust_props [of f] GetObserverTrust_Unset_Set [of _ f]
    UnsetNumberOfClasses_props [of f] GetNumberOfClasses_Unset_Set [of _ f]
  by blast

theorem Unset_operations_witness:
  "\<not> m_HasMaximumNumberOfIterations filter_after_run
   \<and> UnsetMaximumNumberOfIterations filter_after_run = filter_after_run
   \<and> \<not> m_HasPriorPreference filter_after_run
   \<and> UnsetPriorPreference filter_after_run = filter_after_run
   \<and> \<not> m_HasPriorProbabilityImageArray filter_after_run
   \<and> UnsetPriorProbabilityImageArray filter_after_run = filter_after_run
   \<and> \<not> m_HasPriorProbabilities filter_after_run
   \<and> UnsetPriorProbabilities filter_after_run = filter_after_run
   \<and> \<not> m_HasObserverTrust filter_after_run
   \<and> UnsetObserverTrust filter_after_run = filter_after_run
   \<and> \<not> m_HasNumberOfClasses filter_after_run
   \<and> UnsetNumberOfClasses filter_after_run = filter_after_run"
  using Unset_operations_idempotent_flag_only [of filter_after_run]
  by (simp add: filter_after_run_def)

section \<open>Reading a confusion matrix\<close>

text \<open>
  C10. \<^verbatim>\<open>GetConfusionMatrix(i)\<close> subscripts the vector of confusion matrices without a
  check. On a filter that holds one matrix per input segmentation (as it does after a run
  on \<open>S\<close> inputs), the lookup has a result exactly when \<open>i < S\<close>, the result is then the
  \<open>i\<close>-th matrix, and for every other index the lookup is the undefined branch \<open>None\<close>.
\<close>

theorem GetConfusionMatrix_defined_iff:
  assumes "length (m_ConfusionMatrixArray f) = length (Inputs f)"
  shows "((\<exists>m. GetConfusionMatrix f i = Some m) \<longleftrightarrow> unat i < length (Inputs f))
    \<and> (GetConfusionMatrix f i = None \<longleftrightarrow> length (Inputs f) \<le> unat i)
    \<and> (unat i < length (Inputs f) \<longrightarrow>
          GetConfusionMatrix f i = Some (m_ConfusionMatrixArray f ! unat i))"
  using assms by (simp add: GetConfusionMatrix_def not_less)

theorem GetConfusionMatrix_witness:
  "length (m_ConfusionMatrixArray filter_after_run) = length (Inputs filter_after_run)
   \<and> GetConfusionMatrix filter_after_run 1 = Some [[1, 0], [1/2, 1/2]]
   \<and> GetConfusionMatrix filter_after_run 2 = None"
proof -
  have len: "length (m_ConfusionMatrixArray filter_after_run) = length (Inputs filter_after_run)"
    by (simp add: filter_after_run_def)
  have "unat (1 :: 32 word) < length (Inputs filter_after_run)"
    by (simp add: filter_after_run_def)
  with GetConfusionMatrix_defined_iff [OF len, of 1]
  have one: "GetConfusionMatrix filter_after_run 1 = Some [[1, 0], [1/2, 1/2]]"
    by (simp add: filter_after_run_def)
  have "length (Inputs filter_after_run) \<le> unat (2 :: 32 word)"
    by (simp add: filter_after_run_def)
  with GetConfusionMatrix_defined_iff [OF len, of 2]
  have two: "GetConfusionMatrix filter_after_run 2 = None"
    by simp
  from len one two show ?thesis by simp
qed

section \<open>The EM loop: when it stops\<close>

lemma MatricesAfter_0: "MatricesAfter f 0 = m_ConfusionMatrixArray f"
  by (simp add: MatricesAfter_def)

lemma MatricesAfter_Suc: "MatricesAfter f (Suc i) = EMPass f (MatricesAfter f i)"
  by (simp add: MatricesAfter_def)

lemma EMIterate_pass:
  "EMIterate f n (MatricesAfter f n) =
     (if StopsAfterPass f (Suc n)
      then Some (Suc n, MatricesAfter f (Suc n), EStep f (MatricesAfter f n), UpdateOfPass f (Suc n))
      else EMIterate f (Suc n) (MatricesAfter f (Suc n)))"
  by (subst EMIterate.simps)
     (simp add: Let_def StopsAfterPass_def UpdateOfPass_def MatricesAfter_Suc EMPass_def)

lemma EMIterate_first_stop:
  assumes "n < m" "StopsAfterPass f m" "\<forall>i. n < i \<and> i < m \<longrightarrow> \<not> StopsAfterPass f i"
  shows "EMIterate f n (MatricesAfter f n) =
           Some (m, MatricesAfter f m, EStep f (MatricesAfter f (m - 1)), UpdateOfPass f m)"
  using assms
proof (induction "m - Suc n" arbitrary: n)
  case 0
  then have "m = Suc n" by simp
  with "0.prems" show ?case by (simp add: EMIterate_pass)
next
  case (Suc d)
  then have lt: "Suc n < m" by simp
  with Suc.prems have "\<not> StopsAfterPass f (Suc n)" by simp
  then have "EMIterate f n (MatricesAfter f n) = EMIterate f (Suc n) (MatricesAfter f (Suc n))"
    by (simp add: EMIterate_pass)
  moreover have "EMIterate f (Suc n) (MatricesAfter f (Suc n)) =
      Some (m, MatricesAfter f m, EStep f (MatricesAfter f (m - 1)), UpdateOfPass f m)"
    using Suc.hyps(2) lt Suc.prems by (intro Suc.hyps(1)) auto
  ultimately show ?case by simp
qed

lemma EMIterate_result_stops_aux:
  assumes "EMIterate f n cms = Some r"
  shows "cms = MatricesAfter f n \<longrightarrow> n < fst r \<and> StopsAfterPass f (fst r)"
proof (rule EMIterate.raw_induct
    [where P = "\<lambda>f n cms r. cms = MatricesAfter f n \<longrightarrow> n < fst r \<and> StopsAfterPass f (fst r)",
     OF _ assms])
  fix E :: "MultiLabelSTAPLE2ImageFilter \<Rightarrow> nat \<Rightarrow> ConfusionMatrixType list \<Rightarrow>
    (nat \<times> ConfusionMatrixType list \<times> real list list \<times> real) option"
  fix f n cms r
  assume IH: "\<And>f n cms r. E f n cms = Some r \<Longrightarrow>
      cms = MatricesAfter f n \<longrightarrow> n < fst r \<and> StopsAfterPass f (fst r)"
  assume body: "(let W = EStep f cms; new = MStep f W; mu = MaxUpdate f cms new
      in if mu < m_TerminationUpdateThreshold f \<or>
            (m_HasMaximumNumberOfIterations f \<and> unat (m_MaximumNumberOfIterations f) \<le> Suc n) \<or>
            AbortGenerateDataAfter f (Suc n)
         then Some (Suc n, new, W, mu) else E f (Suc n) new) = Some r"
  show "cms = MatricesAfter f n \<longrightarrow> n < fst r \<and> StopsAfterPass f (fst r)"
  proof
    assume cms: "cms = MatricesAfter f n"
    show "n < fst r \<and> StopsAfterPass f (fst r)"
    proof (cases "StopsAfterPass f (Suc n)")
      case True
      with body cms have "r = (Suc n, MatricesAfter f (Suc n), EStep f (MatricesAfter f n),
          UpdateOfPass f (Suc n))"
        by (auto simp: Let_def StopsAfterPass_def UpdateOfPass_def MatricesAfter_Suc EMPass_def)
      with True show ?thesis by simp
    next
      case False
      with body cms have "E f (Suc n) (MatricesAfter f (Suc n)) = Some r"
        by (auto simp: Let_def StopsAfterPass_def UpdateOfPass_def MatricesAfter_Suc EMPass_def)
      from IH [OF this] show ?thesis by simp
    qed
  qed
qed

lemma EMIterate_never_stops:
  assumes "\<forall>i. n < i \<longrightarrow> \<not> StopsAfterPass f i"
  shows "EMIterate f n (MatricesAfter f n) = None"
proof (cases "EMIterate f n (MatricesAfter f n)")
  case None
  then show ?thesis .
next
  case (Some r)
  from EMIterate_result_stops_aux [OF this] assms show ?thesis by blast
qed


lemma GenerateData_first_stop:
  assumes "1 \<le> m" "StopsAfterPass f m" "\<forall>i. 1 \<le> i \<and> i < m \<longrightarrow> \<not> StopsAfterPass f i"
  shows "GenerateData f =
     Some (f\<lparr>m_ConfusionMatrixArray := MatricesAfter f m,
             m_UpdatedConfusionMatrixArray := MatricesAfter f m,
             m_MaximumConfusionMatrixElementUpdate := UpdateOfPass f m,
             m_ElapsedIterations := of_nat m,
             Output := DecisionStage f (EStep f (MatricesAfter f (m - 1)))\<rparr>)"
proof -
  have "EMIterate f 0 (MatricesAfter f 0) =
      Some (m, MatricesAfter f m, EStep f (MatricesAfter f (m - 1)), UpdateOfPass f m)"
    using assms by (intro EMIterate_first_stop) auto
  then show ?thesis
    by (simp add: GenerateData_def MatricesAfter_0)
qed

lemma GenerateData_never_stops:
  assumes "\<forall>i. 1 \<le> i \<longrightarrow> \<not> StopsAfterPass f i"
  shows "GenerateData f = None"
proof -
  have "EMIterate f 0 (MatricesAfter f 0) = None"
    using assms by (intro EMIterate_never_stops) auto
  then show ?thesis
    by (simp add: GenerateData_def MatricesAfter_0)
qed

lemma first_stop_exists:
  assumes "1 \<le> c" "StopsAfterPass f c"
  shows "\<exists>m. 1 \<le> m \<and> m \<le> c \<and> StopsAfterPass f m \<and>
           (\<forall>i. 1 \<le> i \<and> i < m \<longrightarrow> \<not> StopsAfterPass f i)"
proof -
  define m where "m = (LEAST i. 1 \<le> i \<and> StopsAfterPass f i)"
  have ex: "1 \<le> c \<and> StopsAfterPass f c" using assms by simp
  have "1 \<le> m \<and> StopsAfterPass f m"
    unfolding m_def by (rule LeastI [of "\<lambda>i. 1 \<le> i \<and> StopsAfterPass f i", OF ex])
  moreover have "m \<le> c"
    unfolding m_def by (rule Least_le [of "\<lambda>i. 1 \<le> i \<and> StopsAfterPass f i", OF ex])
  moreover have "\<forall>i. 1 \<le> i \<and> i < m \<longrightarrow> \<not> StopsAfterPass f i"
    unfolding m_def using not_less_Least [of _ "\<lambda>i. 1 \<le> i \<and> StopsAfterPass f i"] by blast
  ultimately show ?thesis by blast
qed














section \<open>Pixels outside the mask\<close>

lemma RelabelPixel_simps [simp]:
  "length (Inputs (RelabelPixel f p ls)) = length (Inputs f)"
  "m_MaskImage (RelabelPixel f p ls) = m_MaskImage f"
  "m_NumberOfClasses (RelabelPixel f p ls) = m_NumberOfClasses f"
  "m_ConfusionMatrixArray (RelabelPixel f p ls) = m_ConfusionMatrixArray f"
  "m_TerminationUpdateThreshold (RelabelPixel f p ls) = m_TerminationUpdateThreshold f"
  "m_HasMaximumNumberOfIterations (RelabelPixel f p ls) = m_HasMaximumNumberOfIterations f"
  "m_MaximumNumberOfIterations (RelabelPixel f p ls) = m_MaximumNumberOfIterations f"
  "AbortGenerateDataAfter (RelabelPixel f p ls) = AbortGenerateDataAfter f"
  by (simp_all add: RelabelPixel_def)

lemma NumberOfPixels_alt:
  "NumberOfPixels f = (if Inputs f = [] then 0 else length (Inputs f ! 0))"
  by (cases "Inputs f") (simp_all add: NumberOfPixels_def)

lemma Inputs_RelabelPixel_nth:
  "s < length (Inputs f) \<Longrightarrow> Inputs (RelabelPixel f p ls) ! s = (Inputs f ! s)[p := ls ! s]"
  by (simp add: RelabelPixel_def)

lemma Inputs_RelabelPixel_Nil: "Inputs (RelabelPixel f p ls) = [] \<longleftrightarrow> Inputs f = []"
  by (simp add: RelabelPixel_def)

lemma NumberOfPixels_RelabelPixel [simp]:
  "NumberOfPixels (RelabelPixel f p ls) = NumberOfPixels f"
  by (simp add: NumberOfPixels_alt Inputs_RelabelPixel_Nil Inputs_RelabelPixel_nth)

lemma InsideMask_RelabelPixel [simp]:
  "InsideMask (RelabelPixel f p ls) = InsideMask f"
  by (rule ext) (simp add: InsideMask_def)

lemma Inputs_RelabelPixel_other:
  "s < length (Inputs f) \<Longrightarrow> q \<noteq> p \<Longrightarrow> Inputs (RelabelPixel f p ls) ! s ! q = Inputs f ! s ! q"
  by (simp add: Inputs_RelabelPixel_nth)

lemma Inputs_RelabelPixel_same:
  "p < NumberOfPixels f \<Longrightarrow> Inputs (RelabelPixel f p ls) ! 0 ! p = ls ! 0"
  by (simp add: NumberOfPixels_alt Inputs_RelabelPixel_nth split: if_splits)

lemma PriorAt_RelabelPixel [simp]: "PriorAt (RelabelPixel f p ls) k q = PriorAt f k q"
  by (simp add: PriorAt_def RelabelPixel_def)

lemma TrustPower_RelabelPixel [simp]: "TrustPower (RelabelPixel f p ls) s x = TrustPower f s x"
  by (simp add: TrustPower_def RelabelPixel_def)

lemma UnnormalizedWeight_RelabelPixel:
  assumes "q \<noteq> p"
  shows "UnnormalizedWeight (RelabelPixel f p ls) cms q k = UnnormalizedWeight f cms q k"
proof -
  have eq: "map (\<lambda>s. TrustPower f s (cms ! s ! k ! (Inputs (RelabelPixel f p ls) ! s ! q)))
            [0..<length (Inputs f)] =
        map (\<lambda>s. TrustPower f s (cms ! s ! k ! (Inputs f ! s ! q))) [0..<length (Inputs f)]"
    by (rule map_cong) (simp_all add: Inputs_RelabelPixel_other [OF _ assms])
  show ?thesis
    by (simp add: UnnormalizedWeight_def eq)
qed

lemma PosteriorAt_RelabelPixel:
  assumes "q \<noteq> p"
  shows "PosteriorAt (RelabelPixel f p ls) cms q = PosteriorAt f cms q"
proof -
  have eq: "UnnormalizedWeight (RelabelPixel f p ls) cms q = UnnormalizedWeight f cms q"
    by (rule ext) (rule UnnormalizedWeight_RelabelPixel [OF assms])
  show ?thesis
    by (simp add: PosteriorAt_def eq)
qed

lemma EStep_RelabelPixel:
  assumes "\<not> InsideMask f p"
  shows "EStep (RelabelPixel f p ls) cms = EStep f cms"
proof -
  have "\<And>q. InsideMask f q \<Longrightarrow> PosteriorAt (RelabelPixel f p ls) cms q = PosteriorAt f cms q"
    using assms by (intro PosteriorAt_RelabelPixel) auto
  then show ?thesis
    by (simp add: EStep_def)
qed

lemma Accumulate_RelabelPixel:
  assumes "\<not> InsideMask f p" "s < length (Inputs f)"
  shows "Accumulate (RelabelPixel f p ls) (W[p := w]) s k j = Accumulate f W s k j"
proof -
  have eq: "map (\<lambda>q. W[p := w] ! q ! k * (if Inputs (RelabelPixel f p ls) ! s ! q = j then 1 else 0))
            (filter (InsideMask f) [0..<NumberOfPixels f]) =
        map (\<lambda>q. W ! q ! k * (if Inputs f ! s ! q = j then 1 else 0))
            (filter (InsideMask f) [0..<NumberOfPixels f])"
  proof (rule map_cong)
    fix q assume "q \<in> set (filter (InsideMask f) [0..<NumberOfPixels f])"
    then have "q \<noteq> p" using assms(1) by auto
    then show "W[p := w] ! q ! k * (if Inputs (RelabelPixel f p ls) ! s ! q = j then 1 else 0) =
        W ! q ! k * (if Inputs f ! s ! q = j then 1 else 0)"
      by (simp add: Inputs_RelabelPixel_other [OF assms(2)])
  qed simp
  show ?thesis
    by (simp add: Accumulate_def eq)
qed

lemma MStep_RelabelPixel:
  assumes "\<not> InsideMask f p"
  shows "MStep (RelabelPixel f p ls) (W[p := w]) = MStep f W"
proof -
  have eq: "\<And>s k. s < length (Inputs f) \<Longrightarrow>
      Accumulate (RelabelPixel f p ls) (W[p := w]) s k = Accumulate f W s k"
    by (rule ext) (rule Accumulate_RelabelPixel [OF assms])
  show ?thesis
    by (simp add: MStep_def eq)
qed

lemma EMPass_RelabelPixel:
  assumes "\<not> InsideMask f p"
  shows "EMPass (RelabelPixel f p ls) cms = EMPass f cms"
  using MStep_RelabelPixel [OF assms, of ls "EStep f cms" "EStep f cms ! p"]
  by (simp add: EMPass_def EStep_RelabelPixel [OF assms])

lemma MatricesAfter_RelabelPixel:
  assumes "\<not> InsideMask f p"
  shows "MatricesAfter (RelabelPixel f p ls) i = MatricesAfter f i"
  by (induction i) (simp_all add: MatricesAfter_0 MatricesAfter_Suc EMPass_RelabelPixel [OF assms])

lemma MaxUpdate_RelabelPixel [simp]:
  "MaxUpdate (RelabelPixel f p ls) old new = MaxUpdate f old new"
  by (simp add: MaxUpdate_def)

lemma StopsAfterPass_RelabelPixel:
  assumes "\<not> InsideMask f p"
  shows "StopsAfterPass (RelabelPixel f p ls) i = StopsAfterPass f i"
  by (simp add: StopsAfterPass_def UpdateOfPass_def MatricesAfter_RelabelPixel [OF assms])

lemma GenerateData_matrices_RelabelPixel:
  assumes "\<not> InsideMask f p"
  shows "map_option m_ConfusionMatrixArray (GenerateData (RelabelPixel f p ls)) =
         map_option m_ConfusionMatrixArray (GenerateData f)"
proof (cases "\<exists>c. 1 \<le> c \<and> StopsAfterPass f c")
  case True
  then obtain c where "1 \<le> c" "StopsAfterPass f c" by blast
  then obtain m where m: "1 \<le> m" "StopsAfterPass f m"
      "\<forall>i. 1 \<le> i \<and> i < m \<longrightarrow> \<not> StopsAfterPass f i"
    using first_stop_exists [of c f] by blast
  then have m': "StopsAfterPass (RelabelPixel f p ls) m"
      "\<forall>i. 1 \<le> i \<and> i < m \<longrightarrow> \<not> StopsAfterPass (RelabelPixel f p ls) i"
    by (simp_all add: StopsAfterPass_RelabelPixel [OF assms])
  show ?thesis
    by (simp add: GenerateData_first_stop [OF m] GenerateData_first_stop [OF m(1) m']
        MatricesAfter_RelabelPixel [OF assms])
next
  case False
  then have n: "\<forall>i. 1 \<le> i \<longrightarrow> \<not> StopsAfterPass f i" by blast
  then have n': "\<forall>i. 1 \<le> i \<longrightarrow> \<not> StopsAfterPass (RelabelPixel f p ls) i"
    by (simp add: StopsAfterPass_RelabelPixel [OF assms])
  show ?thesis
    by (simp add: GenerateData_never_stops [OF n] GenerateData_never_stops [OF n'])
qed

lemma DecisionStage_outside:
  assumes "\<not> InsideMask f p" "p < NumberOfPixels f"
  shows "DecisionStage f W ! p = Inputs f ! 0 ! p"
  using assms by (simp add: DecisionStage_def)

lemma GenerateData_Output:
  assumes "GenerateData f = Some g"
  shows "\<exists>W. Output g = DecisionStage f W"
  using assms by (auto simp: GenerateData_def split: option.splits)


text \<open>
  C5. At a pixel \<open>p\<close> outside the mask the decision stage outputs the label source 0 has
  there, whatever the posterior and whatever the other sources hold at \<open>p\<close> (with the
  labels \<open>ls\<close> written at \<open>p\<close>, the output is \<open>ls ! 0\<close>); the same holds for the output
  of a run. The E-step computes no posterior at \<open>p\<close>, and \<open>p\<close> adds nothing to any
  accumulation of any M-step: writing other labels at \<open>p\<close> in every source and another
  posterior entry at \<open>p\<close> changes no accumulated entry, no M-step result, none of the
  matrices after any number of passes, and not the matrices a run returns.
\<close>

theorem masked_pixel_first_source_and_no_contribution:
  assumes "m_MaskImage f = Some m" "m ! p = 0" "p < NumberOfPixels f"
  shows "DecisionStage f W ! p = Inputs f ! 0 ! p
    \<and> DecisionStage (RelabelPixel f p ls) W' ! p = ls ! 0
    \<and> (\<forall>g. GenerateData f = Some g \<longrightarrow> GetOutput g ! p = Inputs f ! 0 ! p)
    \<and> EStep f cms ! p = []
    \<and> (\<forall>s. s < length (Inputs f) \<longrightarrow>
          Accumulate (RelabelPixel f p ls) (W[p := w]) s k j = Accumulate f W s k j)
    \<and> MStep (RelabelPixel f p ls) (W[p := w]) = MStep f W
    \<and> MatricesAfter (RelabelPixel f p ls) i = MatricesAfter f i
    \<and> map_option m_ConfusionMatrixArray (GenerateData (RelabelPixel f p ls)) =
        map_option m_ConfusionMatrixArray (GenerateData f)"
proof -
  have out: "\<not> InsideMask f p"
    using assms(1,2) by (simp add: InsideMask_def)
  have out': "\<not> InsideMask (RelabelPixel f p ls) p"
    using out by simp
  have d1: "DecisionStage f W ! p = Inputs f ! 0 ! p" for W
    by (rule DecisionStage_outside [OF out assms(3)])
  have d2: "DecisionStage (RelabelPixel f p ls) W' ! p = ls ! 0"
    using DecisionStage_outside [OF out', of W'] assms(3)
    by (simp add: Inputs_RelabelPixel_same)
  have d3: "\<forall>g. GenerateData f = Some g \<longrightarrow> GetOutput g ! p = Inputs f ! 0 ! p"
    using GenerateData_Output [of f] d1 by (auto simp: GetOutput_def)
  have e: "EStep f cms ! p = []"
    using out assms(3) by (simp add: EStep_def)
  have a: "\<forall>s. s < length (Inputs f) \<longrightarrow>
      Accumulate (RelabelPixel f p ls) (W[p := w]) s k j = Accumulate f W s k j"
    by (simp add: Accumulate_RelabelPixel [OF out])
  note m = MStep_RelabelPixel [OF out, of ls W w]
  note ma = MatricesAfter_RelabelPixel [OF out, of ls i]
  note g = GenerateData_matrices_RelabelPixel [OF out, of ls]
  from d1 d2 d3 e a m ma g show ?thesis
    by blast
qed

theorem masked_pixel_witness:
  "m_MaskImage filter_masked = Some [1, 0, 1]
   \<and> [1, 0, 1 :: nat] ! 1 = 0
   \<and> 1 < NumberOfPixels filter_masked
   \<and> (\<forall>W. DecisionStage filter_masked W ! 1 = 1)
   \<and> (\<forall>W. DecisionStage (RelabelPixel filter_masked 1 [0, 1]) W ! 1 = 0)
   \<and> (\<forall>ls i. MatricesAfter (RelabelPixel filter_masked 1 ls) i = MatricesAfter filter_masked i)"
proof -
  have h1: "m_MaskImage filter_masked = Some [1, 0, 1]"
    by (simp add: filter_masked_def)
  have h2: "[1, 0, 1 :: nat] ! 1 = 0"
    by simp
  have h3: "1 < NumberOfPixels filter_masked"
    by (simp add: filter_masked_def NumberOfPixels_def)
  have src: "Inputs filter_masked ! 0 ! 1 = 1"
    by (simp add: filter_masked_def)
  note t = masked_pixel_first_source_and_no_contribution [OF h1 h2 h3]
  have "DecisionStage filter_masked W ! 1 = 1" for W
    using t [of W] src by simp
  moreover have "DecisionStage (RelabelPixel filter_masked 1 [0, 1]) W ! 1 = 0" for W
    using t [of _ "[0, 1]" W] by simp
  moreover have "MatricesAfter (RelabelPixel filter_masked 1 ls) i = MatricesAfter filter_masked i"
    for ls i
    using t [of _ ls _ _ _ _ _ i] by simp
  ultimately show ?thesis
    using h1 h2 h3 by simp
qed

end
